theory Spec2Isabelle
  imports
    Complex_Main
    "HOL-Library.Char_ord"
    "HOL-Library.List_Lexorder"
    "HOL-Library.Product_Lexorder"
    "HOL-Library.Multiset"
begin

section \<open>Errors\<close>

text \<open>
  A JavaScript \<^verbatim>\<open>Error\<close> object, as far as the server looks at it: the error handler of
  \<^verbatim>\<open>server/index.js\<close> reads \<^verbatim>\<open>err.name\<close>, \<^verbatim>\<open>err.code\<close> and \<^verbatim>\<open>err.message\<close>.
  Strings are byte lists, so the accented letters of the Spanish messages are written as
  their UTF-8 bytes.
\<close>

record error =
  err_name :: string
  err_message :: string
  err_code :: "string option"

definition Error :: "string \<Rightarrow> error" where
  \<comment> \<open>\<^verbatim>\<open>new Error(msg)\<close>: the name is "Error" and there is no code.\<close>
  "Error msg = \<lparr>err_name = ''Error'', err_message = msg, err_code = None\<rparr>"

definition a_acute :: string where "a_acute = [CHR 0xC3, CHR 0xA1]"
definition i_acute :: string where "i_acute = [CHR 0xC3, CHR 0xAD]"
definition o_acute :: string where "o_acute = [CHR 0xC3, CHR 0xB3]"

text \<open>A number in a template string or in a text column: its decimal digits.\<close>

fun string_of_nat :: "nat \<Rightarrow> string" where
  "string_of_nat n =
     (if n < 10 then [''0123456789'' ! n]
      else string_of_nat (n div 10) @ [''0123456789'' ! (n mod 10)])"

declare string_of_nat.simps [simp del]

section \<open>The connection manager (server/config/database.js)\<close>

text \<open>
  The driver's connection object (\<^verbatim>\<open>sqlite3.Database\<close> or \<^verbatim>\<open>pg.Pool\<close>) is kept abstract:
  all the manager ever learns about it is whether it has been closed.
\<close>

datatype handle = Handle (closed: bool)

record DatabaseManager =
  dbType :: string
  connection :: "handle option"
  isConnected :: bool

definition constructor :: "string option \<Rightarrow> DatabaseManager" where
  \<comment> \<open>\<^verbatim>\<open>this.dbType = process.env.DATABASE_TYPE || 'sqlite'\<close>\<close>
  "constructor env =
     \<lparr>dbType = (case env of None \<Rightarrow> ''sqlite'' | Some s \<Rightarrow> if s = [] then ''sqlite'' else s),
      connection = None, isConnected = False\<rparr>"

definition connect ::
  "error option \<Rightarrow> DatabaseManager \<Rightarrow> (error + unit) \<times> DatabaseManager" where
  \<comment> \<open>The first argument is what the driver reports when the connection is opened. Both
      branches assign \<^verbatim>\<open>this.connection\<close> before the driver answers.\<close>
  "connect driver m =
     (case driver of
        Some e \<Rightarrow> (Inl e, m\<lparr>connection := Some (Handle False)\<rparr>)
      | None \<Rightarrow> (Inr (), m\<lparr>connection := Some (Handle False), isConnected := True\<rparr>))"

definition pool_end :: "handle \<Rightarrow> error + handle" where
  \<comment> \<open>\<^verbatim>\<open>pg.Pool.end()\<close>: a pool can be ended once.\<close>
  "pool_end h =
     (if closed h then Inl (Error ''Called end on pool more than once'')
      else Inr (Handle True))"

definition sqlite_close :: "handle \<Rightarrow> handle" where
  \<comment> \<open>\<^verbatim>\<open>sqlite3.Database.close(cb)\<close>: an error is handed to the callback, which logs it
      and resolves all the same.\<close>
  "sqlite_close h = Handle True"

definition close :: "DatabaseManager \<Rightarrow> (error + unit) \<times> DatabaseManager" where
  \<comment> \<open>In the SQLite branch the promise is returned from inside the \<^verbatim>\<open>else\<close>, so the
      assignment \<^verbatim>\<open>this.isConnected = false\<close> after the \<^verbatim>\<open>if\<close> is reached on the
      PostgreSQL branch only. \<^verbatim>\<open>this.connection\<close> is never reset.\<close>
  "close m =
     (case connection m of
        None \<Rightarrow> (Inr (), m)
      | Some h \<Rightarrow>
          if dbType m = ''postgresql'' then
            (case pool_end h of
               Inl e \<Rightarrow> (Inl e, m)
             | Inr h' \<Rightarrow> (Inr (), m\<lparr>connection := Some h', isConnected := False\<rparr>))
          else (Inr (), m\<lparr>connection := Some (sqlite_close h)\<rparr>))"

definition getDatabaseType :: "DatabaseManager \<Rightarrow> string" where
  "getDatabaseType m = dbType m"

definition isConnectionActive :: "DatabaseManager \<Rightarrow> bool" where
  "isConnectionActive m = isConnected m"

definition is_postgresql :: "DatabaseManager \<Rightarrow> bool" where
  \<comment> \<open>\<^verbatim>\<open>dbManager.getDatabaseType() === 'postgresql'\<close>\<close>
  "is_postgresql m = (getDatabaseType m = ''postgresql'')"

definition query_guard :: "DatabaseManager \<Rightarrow> error option" where
  \<comment> \<open>What stops \<^verbatim>\<open>query\<close> before the statement reaches the engine: the manager's own
      check of \<^verbatim>\<open>isConnected\<close>, then the driver refusing a closed handle.\<close>
  "query_guard m =
     (if \<not> isConnected m then Some (Error ''Base de datos no conectada'')
      else case connection m of
             None \<Rightarrow> Some \<lparr>err_name = ''TypeError'', err_message = ''connection is null'',
                            err_code = None\<rparr>
           | Some h \<Rightarrow>
               if closed h then
                 Some (if is_postgresql m
                       then Error ''Cannot use a pool after calling end on the pool''
                       else \<lparr>err_name = ''Error'',
                             err_message = ''SQLITE_MISUSE: Database is closed'',
                             err_code = Some ''SQLITE_MISUSE''\<rparr>)
               else None)"

definition query ::
  "DatabaseManager \<Rightarrow> ('s \<Rightarrow> (error + 'a) \<times> 's) \<Rightarrow> 's \<Rightarrow> (error + 'a) \<times> 's" where
  \<comment> \<open>\<^verbatim>\<open>dbManager.query(query, params)\<close>. The statement with its parameters bound is a
      function on the stored tables; a statement that fails leaves them as they were.\<close>
  "query m stmt s = (case query_guard m of Some e \<Rightarrow> (Inl e, s) | None \<Rightarrow> stmt s)"

definition sqlite_manager :: DatabaseManager where
  "sqlite_manager = snd (connect None (constructor None))"

definition postgresql_manager :: DatabaseManager where
  "postgresql_manager = snd (connect None (constructor (Some ''postgresql'')))"

section \<open>The stored tables (server/scripts/migrate.js)\<close>

text \<open>
  Stored values are typed. A calendar date is year, month and day, compared
  lexicographically, as ISO dates compare; a timestamp is a reading of the engine's
  clock; an amount is an exact decimal. What the drivers and engines do to a value on its
  way in and out (binary floating point, the text or number a date or a year is bound
  as, the storage class SQLite compares it in) is not part of this model.
\<close>

type_synonym date = "nat \<times> nat \<times> nat"

type_synonym timestamp = nat

definition year_of :: "date \<Rightarrow> nat" where
  \<comment> \<open>\<^verbatim>\<open>strftime('%Y', date)\<close>, \<^verbatim>\<open>EXTRACT(YEAR FROM date)\<close>\<close>
  "year_of d = fst d"

definition month_of :: "date \<Rightarrow> nat" where
  \<comment> \<open>\<^verbatim>\<open>CAST(strftime('%m', date) AS INTEGER)\<close>, \<^verbatim>\<open>EXTRACT(MONTH FROM date)\<close>\<close>
  "month_of d = fst (snd d)"

definition day_of :: "date \<Rightarrow> nat" where
  "day_of d = snd (snd d)"

definition calendar_date :: "date \<Rightarrow> bool" where
  "calendar_date d = (1 \<le> month_of d \<and> month_of d \<le> 12 \<and> 1 \<le> day_of d \<and> day_of d \<le> 31)"

text \<open>
  SQLite types values, not columns. Of its storage classes the statements below meet
  NULL, INTEGER and TEXT. \<^verbatim>\<open>strftime('%Y', date)\<close> is the four digits of the year as
  TEXT, and NULL where the date is not one SQLite reads (its years end at 9999). Where
  neither operand of \<^verbatim>\<open>=\<close> is a column (an expression on one side, a bound parameter
  on the other) SQLite converts neither: values of different storage classes are not
  equal, so that the text \<^verbatim>\<open>'2024'\<close> is not equal to the number 2024, and NULL is equal
  to nothing.
\<close>

datatype sql_value = Null | Integer int | Text string

definition pad :: "nat \<Rightarrow> nat \<Rightarrow> string" where
  \<comment> \<open>The digits of a number, filled with zeros on the left up to a width.\<close>
  "pad w n = replicate (w - length (string_of_nat n)) (CHR ''0'') @ string_of_nat n"

definition strftime_Y :: "date \<Rightarrow> sql_value" where
  "strftime_Y d =
     (if calendar_date d \<and> year_of d < 10000 then Text (pad 4 (year_of d)) else Null)"

definition sqlite_equals :: "sql_value \<Rightarrow> sql_value \<Rightarrow> bool" where
  "sqlite_equals a b =
     (case a of
        Null \<Rightarrow> False
      | Integer i \<Rightarrow> (case b of Integer j \<Rightarrow> i = j | Null \<Rightarrow> False | Text y \<Rightarrow> False)
      | Text x \<Rightarrow> (case b of Text y \<Rightarrow> x = y | Null \<Rightarrow> False | Integer j \<Rightarrow> False))"

record Transaction =
  t_id :: nat
  t_type :: string
  t_amount :: real
  t_description :: string
  t_category :: string
  t_date :: date
  t_created_at :: timestamp
  t_updated_at :: timestamp

record Category =
  c_id :: nat
  c_name :: string
  c_type :: string
  c_description :: "string option"
  c_color :: "string option"
  c_icon :: "string option"
  c_created_at :: timestamp
  c_updated_at :: timestamp

text \<open>
  The two tables, each with the counter behind its generated key
  (\<^verbatim>\<open>INTEGER PRIMARY KEY AUTOINCREMENT\<close>, \<^verbatim>\<open>SERIAL PRIMARY KEY\<close>).
\<close>

record tables =
  transactions :: "Transaction list"
  transactions_seq :: nat
  categories :: "Category list"
  categories_seq :: nat

definition next_id :: "nat \<Rightarrow> nat list \<Rightarrow> nat" where
  \<comment> \<open>The generated key: one more than every key the table holds or ever handed out.
      PostgreSQL's sequence gives the same key as long as every stored key came from it,
      and the repositories never choose a key themselves.\<close>
  "next_id seq ids = Suc (fold max ids seq)"

definition constraint_error :: "bool \<Rightarrow> error" where
  \<comment> \<open>A violated CHECK or UNIQUE constraint, as the driver reports it; the codes the
      error handler looks for are the SQLite one and PostgreSQL's unique violation.\<close>
  "constraint_error pg =
     (if pg then \<lparr>err_name = ''error'', err_message = ''violates constraint'',
                  err_code = Some ''23505''\<rparr>
      else \<lparr>err_name = ''Error'', err_message = ''SQLITE_CONSTRAINT: constraint failed'',
            err_code = Some ''SQLITE_CONSTRAINT''\<rparr>)"

definition syntax_error :: "bool \<Rightarrow> error" where
  "syntax_error pg =
     (if pg then \<lparr>err_name = ''error'', err_message = ''syntax error at or near WHERE'',
                  err_code = Some ''42601''\<rparr>
      else \<lparr>err_name = ''Error'', err_message = ''SQLITE_ERROR: near WHERE: syntax error'',
            err_code = Some ''SQLITE_ERROR''\<rparr>)"

section \<open>The SQL text the repositories build\<close>

text \<open>
  The repositories build a statement by appending pieces of text to \<^verbatim>\<open>SELECT ... FROM
  transactions\<close>. A piece is \<^verbatim>\<open>WHERE c\<close> or \<^verbatim>\<open>AND c\<close>, with the parameter of its
  placeholder bound. The engine's grammar admits one \<^verbatim>\<open>WHERE\<close> in a \<^verbatim>\<open>SELECT\<close>,
  followed by any number of \<^verbatim>\<open>AND\<close>s; any other sequence is a syntax error.
\<close>

datatype cond =
    One_eq_One
  | Id_eq nat
  | Type_eq string
  | Category_eq string
  | Date_ge date
  | Date_le date
  | Date_between date date
  | Strftime_Y_eq sql_value
  | Extract_year_eq nat

datatype fragment = Where cond | And cond

fun holds :: "cond \<Rightarrow> Transaction \<Rightarrow> bool" where
  "holds One_eq_One t = True"
| "holds (Id_eq i) t = (t_id t = i)"
| "holds (Type_eq s) t = (t_type t = s)"
| "holds (Category_eq s) t = (t_category t = s)"
| "holds (Date_ge d) t = (d \<le> t_date t)"
| "holds (Date_le d) t = (t_date t \<le> d)"
| "holds (Date_between d e) t = (d \<le> t_date t \<and> t_date t \<le> e)"
| "holds (Strftime_Y_eq v) t = sqlite_equals (strftime_Y (t_date t)) v"
| "holds (Extract_year_eq y) t = (year_of (t_date t) = y)"

fun and_chain :: "fragment list \<Rightarrow> cond list option" where
  "and_chain [] = Some []"
| "and_chain (And c # fs) = map_option (Cons c) (and_chain fs)"
| "and_chain (Where c # fs) = None"

fun where_clause :: "bool \<Rightarrow> fragment list \<Rightarrow> error + cond list" where
  "where_clause pg [] = Inr []"
| "where_clause pg (Where c # fs) =
     (case and_chain fs of None \<Rightarrow> Inl (syntax_error pg) | Some cs \<Rightarrow> Inr (c # cs))"
| "where_clause pg (And c # fs) = Inl (syntax_error pg)"

definition matching :: "cond list \<Rightarrow> Transaction list \<Rightarrow> Transaction list" where
  "matching cs rows = filter (\<lambda>t. list_all (\<lambda>c. holds c t) cs) rows"

definition from_transactions ::
  "bool \<Rightarrow> fragment list \<Rightarrow> tables \<Rightarrow> error + Transaction list" where
  \<comment> \<open>\<^verbatim>\<open>... FROM transactions\<close> followed by the pieces: the rows the statement ranges over.\<close>
  "from_transactions pg fs s =
     (case where_clause pg fs of
        Inl e \<Rightarrow> Inl e
      | Inr cs \<Rightarrow> Inr (matching cs (transactions s)))"

definition order_by_desc :: "('a \<Rightarrow> 'k::linorder) \<Rightarrow> 'a list \<Rightarrow> 'a list" where
  \<comment> \<open>\<^verbatim>\<open>ORDER BY k DESC\<close>. The engine leaves the order of rows with equal keys open; the
      model fixes one.\<close>
  "order_by_desc k rows = rev (sort_key k rows)"

definition limit_rows :: "bool \<Rightarrow> int option \<Rightarrow> 'a list \<Rightarrow> error + 'a list" where
  \<comment> \<open>\<^verbatim>\<open>LIMIT n\<close>: a negative \<^verbatim>\<open>n\<close> is no limit in SQLite and an error in PostgreSQL.\<close>
  "limit_rows pg l rows =
     (case l of
        None \<Rightarrow> Inr rows
      | Some n \<Rightarrow>
          if n < 0 then
            (if pg then Inl \<lparr>err_name = ''error'', err_message = ''LIMIT must not be negative'',
                             err_code = Some ''2201W''\<rparr>
             else Inr rows)
          else Inr (take (nat n) rows))"

definition select_transactions ::
  "bool \<Rightarrow> fragment list \<Rightarrow> bool \<Rightarrow> int option \<Rightarrow> tables \<Rightarrow> error + Transaction list" where
  \<comment> \<open>\<^verbatim>\<open>SELECT * FROM transactions\<close>, the pieces, then \<^verbatim>\<open>ORDER BY date DESC, created_at
      DESC\<close> when \<^verbatim>\<open>ordered\<close>, then \<^verbatim>\<open>LIMIT\<close>.\<close>
  "select_transactions pg fs ordered l s =
     (case from_transactions pg fs s of
        Inl e \<Rightarrow> Inl e
      | Inr rows \<Rightarrow>
          limit_rows pg l
            (if ordered then order_by_desc (\<lambda>t. (t_date t, t_created_at t)) rows else rows))"

definition sql_sum :: "real list \<Rightarrow> real option" where
  \<comment> \<open>\<^verbatim>\<open>SUM\<close> over no rows is NULL.\<close>
  "sql_sum xs = (if xs = [] then None else Some (sum_list xs))"

definition coalesce :: "'a option \<Rightarrow> 'a \<Rightarrow> 'a" where
  "coalesce v d = (case v of None \<Rightarrow> d | Some x \<Rightarrow> x)"

definition select_coalesce_sum ::
  "bool \<Rightarrow> fragment list \<Rightarrow> tables \<Rightarrow> error + real list" where
  \<comment> \<open>\<^verbatim>\<open>SELECT COALESCE(SUM(amount), 0) FROM transactions ...\<close>: always one row.\<close>
  "select_coalesce_sum pg fs s =
     (case from_transactions pg fs s of
        Inl e \<Rightarrow> Inl e
      | Inr rows \<Rightarrow> Inr [coalesce (sql_sum (map t_amount rows)) 0])"

definition group_sum :: "(Transaction \<Rightarrow> 'k) \<Rightarrow> Transaction list \<Rightarrow> ('k \<times> real) list" where
  \<comment> \<open>\<^verbatim>\<open>SELECT k, SUM(amount) ... GROUP BY k\<close>: one row for each key that occurs.\<close>
  "group_sum k rows =
     map (\<lambda>g. (g, sum_list (map t_amount (filter (\<lambda>t. k t = g) rows)))) (remdups (map k rows))"

definition select_category_totals ::
  "bool \<Rightarrow> fragment list \<Rightarrow> tables \<Rightarrow> error + (string \<times> real) list" where
  \<comment> \<open>\<^verbatim>\<open>SELECT category, SUM(amount) as total FROM transactions ... GROUP BY category
      ORDER BY total DESC\<close>\<close>
  "select_category_totals pg fs s =
     (case from_transactions pg fs s of
        Inl e \<Rightarrow> Inl e
      | Inr rows \<Rightarrow> Inr (order_by_desc snd (group_sum t_category rows)))"

definition select_monthly_totals ::
  "bool \<Rightarrow> fragment list \<Rightarrow> tables \<Rightarrow> error + ((nat \<times> string) \<times> real) list" where
  \<comment> \<open>\<^verbatim>\<open>SELECT month, type, SUM(amount) as total FROM transactions ... GROUP BY month,
      type ORDER BY month, type\<close>\<close>
  "select_monthly_totals pg fs s =
     (case from_transactions pg fs s of
        Inl e \<Rightarrow> Inl e
      | Inr rows \<Rightarrow> Inr (sort_key fst (group_sum (\<lambda>t. (month_of (t_date t), t_type t)) rows)))"

section \<open>The transaction repository (server/models/Transaction.js)\<close>

text \<open>
  A transaction candidate: the request body, and the value the validation hands back.
  The fields are typed, so the coercions of the validation library (a numeric string to a
  number, an ISO string to a date) are the identity here.
\<close>

record TransactionData =
  td_type :: string
  td_amount :: real
  td_description :: string
  td_category :: string
  td_date :: date

fun join :: "string \<Rightarrow> string list \<Rightarrow> string" where
  "join sep [] = []"
| "join sep [x] = x"
| "join sep (x # y # ys) = x @ sep @ join sep (y # ys)"

definition dquote :: string where "dquote = [CHR 0x22]"

definition type_message :: string where
  "type_message =
     ''El tipo debe ser '' @ dquote @ ''income'' @ dquote @ '' o '' @ dquote @ ''expense'' @ dquote"

text \<open>
  Modelled from the spec: the validation library Joi is not part of the repository. The
  rules are those of \<^verbatim>\<open>transactionSchema\<close>, each read as section 4.2 of the spec reads
  it (a kind out of two, a positive amount of at most two fractional digits, a
  description of 1 to 255 characters, a category of 1 to 100, a calendar date), all of
  them checked (\<^verbatim>\<open>abortEarly: false\<close>) and reported with the schema's messages.
  Lengths are counted in bytes. The theorems below are about candidates that break no
  rule, so what the library does with one that breaks a rule (reject it, or round an
  amount of more digits) does not enter them.
\<close>

definition transactionSchema :: "TransactionData \<Rightarrow> string list" where
  "transactionSchema d =
     (if td_type d = ''income'' \<or> td_type d = ''expense'' then [] else [type_message]) @
     (if 0 < td_amount d then [] else [''El monto debe ser mayor a 0'']) @
     (if td_amount d * 100 \<in> \<int> then []
      else [dquote @ ''amount'' @ dquote @ '' must have no more than 2 decimal places'']) @
     (if 1 \<le> length (td_description d) then []
      else [''La descripci'' @ o_acute @ ''n no puede estar vac'' @ i_acute @ ''a'']) @
     (if length (td_description d) \<le> 255 then []
      else [''La descripci'' @ o_acute @ ''n no puede exceder 255 caracteres'']) @
     (if 1 \<le> length (td_category d) then []
      else [''La categor'' @ i_acute @ ''a no puede estar vac'' @ i_acute @ ''a'']) @
     (if length (td_category d) \<le> 100 then []
      else [''La categor'' @ i_acute @ ''a no puede exceder 100 caracteres'']) @
     (if calendar_date (td_date d) then []
      else [''La fecha debe estar en formato ISO (YYYY-MM-DD)''])"

definition Transaction_validate :: "TransactionData \<Rightarrow> string list + TransactionData" where
  \<comment> \<open>\<^verbatim>\<open>{ error, value }\<close>: the messages of the violated rules, or the value.\<close>
  "Transaction_validate data =
     (case transactionSchema data of [] \<Rightarrow> Inr data | m # ms \<Rightarrow> Inl (m # ms))"

definition ValidationError :: "string list \<Rightarrow> error" where
  \<comment> \<open>\<^verbatim>\<open>new Error(details.map(d => d.message).join(', '))\<close> with the name set.\<close>
  "ValidationError details =
     \<lparr>err_name = ''ValidationError'', err_message = join '', '' details, err_code = None\<rparr>"

record filters =
  f_type :: "string option"
  f_category :: "string option"
  f_startDate :: "date option"
  f_endDate :: "date option"
  f_limit :: "int option"

definition no_filters :: filters where
  "no_filters = \<lparr>f_type = None, f_category = None, f_startDate = None, f_endDate = None,
                  f_limit = None\<rparr>"

text \<open>
  \<^verbatim>\<open>if (filters.x)\<close> tests truthiness: an absent value, an empty string and the number 0
  are all skipped.
\<close>

definition truthy_string :: "string option \<Rightarrow> bool" where
  "truthy_string v = (case v of None \<Rightarrow> False | Some s \<Rightarrow> s \<noteq> [])"

definition truthy_date :: "date option \<Rightarrow> bool" where
  "truthy_date v = (case v of None \<Rightarrow> False | Some d \<Rightarrow> True)"

definition truthy_number :: "int option \<Rightarrow> bool" where
  "truthy_number v = (case v of None \<Rightarrow> False | Some n \<Rightarrow> n \<noteq> 0)"

definition piece :: "bool \<Rightarrow> ('a \<Rightarrow> fragment) \<Rightarrow> 'a option \<Rightarrow> fragment list" where
  \<comment> \<open>\<^verbatim>\<open>if (filters.x) { query += ...; params.push(filters.x) }\<close>\<close>
  "piece truthy f v = (case v of None \<Rightarrow> [] | Some x \<Rightarrow> if truthy then [f x] else [])"

definition query_rows :: "DatabaseManager \<Rightarrow> ('s \<Rightarrow> error + 'a) \<Rightarrow> 's \<Rightarrow> error + 'a" where
  \<comment> \<open>\<^verbatim>\<open>dbManager.query\<close> on a statement that only reads.\<close>
  "query_rows m sel s = fst (query m (\<lambda>s. (sel s, s)) s)"

definition Transaction_getAll :: "DatabaseManager \<Rightarrow> filters \<Rightarrow> tables \<Rightarrow> error + Transaction list" where
  "Transaction_getAll m f s =
     (let text =
            [Where One_eq_One] @
            piece (truthy_string (f_type f)) (\<lambda>x. And (Type_eq x)) (f_type f) @
            piece (truthy_string (f_category f)) (\<lambda>x. And (Category_eq x)) (f_category f) @
            piece (truthy_date (f_startDate f)) (\<lambda>x. And (Date_ge x)) (f_startDate f) @
            piece (truthy_date (f_endDate f)) (\<lambda>x. And (Date_le x)) (f_endDate f);
          limit = (if truthy_number (f_limit f) then f_limit f else None)
      in case query_rows m (select_transactions (is_postgresql m) text True limit) s of
           Inl e \<Rightarrow> Inl (Error ''Error al obtener las transacciones'')
         | Inr rows \<Rightarrow> Inr rows)"


definition check_transaction :: "TransactionData \<Rightarrow> bool" where
  \<comment> \<open>The CHECK constraints of the table.\<close>
  "check_transaction d = ((td_type d = ''income'' \<or> td_type d = ''expense'') \<and> 0 < td_amount d)"

text \<open>
  The date column of the SQLite table is TEXT. The rows of \<open>tables\<close> hold calendar
  dates: they stand for rows whose date column holds the ISO text of a date, as
  \<^verbatim>\<open>seed.js\<close> stores them. \<^verbatim>\<open>Transaction.create\<close> does not store such a text on SQLite. It
  binds \<^verbatim>\<open>value.date\<close>, which the validation (\<^verbatim>\<open>Joi.date()\<close>) has turned from the ISO
  string of the candidate into a JavaScript \<^verbatim>\<open>Date\<close>; the SQLite driver binds a \<^verbatim>\<open>Date\<close>
  as its number of milliseconds, a REAL; and the column, of TEXT affinity, keeps the text
  of that number. So the SQLite branch of \<^verbatim>\<open>create\<close> is modelled on a table of its own,
  whose rows hold the date as the text that is stored and comes back. (\<^verbatim>\<open>update\<close> binds
  \<^verbatim>\<open>value.date\<close> in the same way.) The PostgreSQL branch is not modelled: what comes
  back there depends on the time zone in which the driver writes and reads a \<^verbatim>\<open>Date\<close>.
\<close>

definition days_from_civil :: "date \<Rightarrow> int" where
  \<comment> \<open>The days from 1970-01-01 to a date of the Gregorian calendar.\<close>
  "days_from_civil d =
     (let y = int (year_of d) - (if month_of d \<le> 2 then 1 else 0);
          era = y div 400;
          yoe = y mod 400;
          mp = (if 2 < month_of d then int (month_of d) - 3 else int (month_of d) + 9);
          doy = (153 * mp + 2) div 5 + int (day_of d) - 1;
          doe = yoe * 365 + yoe div 4 - yoe div 100 + doy
      in era * 146097 + doe - 719468)"

definition getTime :: "date \<Rightarrow> int" where
  \<comment> \<open>\<^verbatim>\<open>new Date('YYYY-MM-DD').getTime()\<close>: midnight UTC of the day, in milliseconds.\<close>
  "getTime d = days_from_civil d * 86400000"

definition real_text :: "int \<Rightarrow> string" where
  \<comment> \<open>The text SQLite makes of a REAL that is a whole number of at most 15 digits:
      \<^verbatim>\<open>1705017600000.0\<close>.\<close>
  "real_text n = (if n < 0 then ''-'' else []) @ string_of_nat (nat \<bar>n\<bar>) @ ''.0''"

definition iso_text :: "date \<Rightarrow> string" where
  \<comment> \<open>The ISO string of a calendar date, as the candidate holds it: \<^verbatim>\<open>2024-01-12\<close>.\<close>
  "iso_text d = pad 4 (year_of d) @ ''-'' @ pad 2 (month_of d) @ ''-'' @ pad 2 (day_of d)"

record stored_transaction =
  s_id :: nat
  s_type :: string
  s_amount :: real
  s_description :: string
  s_category :: string
  s_date :: string
  s_created_at :: timestamp
  s_updated_at :: timestamp

record sqlite_table =
  stored_rows :: "stored_transaction list"
  stored_seq :: nat

definition insert_transaction ::
  "TransactionData \<Rightarrow> timestamp \<Rightarrow> sqlite_table \<Rightarrow> (error + nat) \<times> sqlite_table" where
  \<comment> \<open>\<^verbatim>\<open>INSERT INTO transactions (type, amount, description, category, date) VALUES
      (?, ?, ?, ?, ?)\<close> on SQLite, with the validated value bound; both timestamps take
      the column default, the engine's clock \<^verbatim>\<open>now\<close>. The answer is \<^verbatim>\<open>lastID\<close>.\<close>
  "insert_transaction v now f =
     (if \<not> check_transaction v then (Inl (constraint_error False), f)
      else
        let i = next_id (stored_seq f) (map s_id (stored_rows f));
            row = \<lparr>s_id = i, s_type = td_type v, s_amount = td_amount v,
                   s_description = td_description v, s_category = td_category v,
                   s_date = real_text (getTime (td_date v)), s_created_at = now,
                   s_updated_at = now\<rparr>
        in (Inr i, f\<lparr>stored_rows := stored_rows f @ [row], stored_seq := i\<rparr>))"

definition stored_getById ::
  "DatabaseManager \<Rightarrow> nat \<Rightarrow> sqlite_table \<Rightarrow> error + stored_transaction option" where
  \<comment> \<open>\<^verbatim>\<open>Transaction.getById\<close> on SQLite's table:
      \<^verbatim>\<open>SELECT * FROM transactions WHERE id = ?\<close>, the first row or null.\<close>
  "stored_getById m i f =
     (case query_rows m (\<lambda>f. Inr (filter (\<lambda>r. s_id r = i) (stored_rows f))) f of
        Inl e \<Rightarrow> Inl (Error (''Error al obtener la transacci'' @ o_acute @ ''n''))
      | Inr found \<Rightarrow> Inr (case found of [] \<Rightarrow> None | r # rs \<Rightarrow> Some r))"

definition create_failed :: error where
  "create_failed = Error (''Error al crear la transacci'' @ o_acute @ ''n'')"

definition Transaction_create_sqlite ::
  "DatabaseManager \<Rightarrow> TransactionData \<Rightarrow> timestamp \<Rightarrow> sqlite_table \<Rightarrow>
   (error + stored_transaction option) \<times> sqlite_table" where
  \<comment> \<open>\<^verbatim>\<open>Transaction.create\<close> where \<^verbatim>\<open>getDatabaseType()\<close> is not \<^verbatim>\<open>'postgresql'\<close>: the
      validation, the insert, then \<^verbatim>\<open>getById(result.lastID)\<close>.\<close>
  "Transaction_create_sqlite m data now f =
     (case Transaction_validate data of
        Inl details \<Rightarrow> (Inl (ValidationError details), f)
      | Inr v \<Rightarrow>
          (case query m (insert_transaction v now) f of
             (Inl e, f') \<Rightarrow> (Inl create_failed, f')
           | (Inr lastID, f') \<Rightarrow>
               (case stored_getById m lastID f' of
                  Inl e \<Rightarrow> (Inl create_failed, f')
                | Inr found \<Rightarrow> (Inr found, f'))))"

definition rewrite :: "bool \<Rightarrow> TransactionData \<Rightarrow> timestamp \<Rightarrow> Transaction \<Rightarrow> Transaction" where
  \<comment> \<open>The \<^verbatim>\<open>SET\<close> list: five columns on SQLite; PostgreSQL adds \<^verbatim>\<open>updated_at = NOW()\<close>
      (and its trigger does the same).\<close>
  "rewrite pg d now t =
     (let t' = t\<lparr>t_type := td_type d, t_amount := td_amount d,
                  t_description := td_description d, t_category := td_category d,
                  t_date := td_date d\<rparr>
      in if pg then t'\<lparr>t_updated_at := now\<rparr> else t')"




definition delete_transactions :: "nat \<Rightarrow> tables \<Rightarrow> (error + Transaction list) \<times> tables" where
  \<comment> \<open>\<^verbatim>\<open>DELETE FROM transactions WHERE id = ?\<close>. The answer is the removed rows:
      PostgreSQL returns them, SQLite reports how many there are (\<^verbatim>\<open>changes\<close>).\<close>
  "delete_transactions i s =
     (Inr (filter (\<lambda>t. t_id t = i) (transactions s)),
      s\<lparr>transactions := filter (\<lambda>t. t_id t \<noteq> i) (transactions s)\<rparr>)"

definition Transaction_delete :: "DatabaseManager \<Rightarrow> nat \<Rightarrow> tables \<Rightarrow> (error + bool) \<times> tables" where
  "Transaction_delete m i s =
     (case query m (delete_transactions i) s of
        (Inl e, s') \<Rightarrow> (Inl (Error (''Error al eliminar la transacci'' @ o_acute @ ''n'')), s')
      | (Inr result, s') \<Rightarrow> (Inr (length result > 0), s'))"

record statistics =
  totalIncome :: real
  totalExpenses :: real
  balance :: real
  expensesByCategory :: "(string \<times> real) list"
  incomeByCategory :: "(string \<times> real) list"

definition first_or_zero :: "real list \<Rightarrow> real" where
  \<comment> \<open>\<^verbatim>\<open>parseFloat(results[i][0]?.total || 0)\<close>\<close>
  "first_or_zero rows = (case rows of [] \<Rightarrow> 0 | x # xs \<Rightarrow> x)"

definition statistics_failed :: error where
  "statistics_failed = Error (''Error al obtener las estad'' @ i_acute @ ''sticas'')"

definition dateFilter :: "filters \<Rightarrow> fragment list" where
  \<comment> \<open>\<^verbatim>\<open>dateFilter = ' WHERE date BETWEEN ? AND ?'\<close> when both dates are given, else the
      empty text.\<close>
  "dateFilter f =
     (case f_startDate f of
        None \<Rightarrow> []
      | Some a \<Rightarrow> (case f_endDate f of None \<Rightarrow> [] | Some b \<Rightarrow> [Where (Date_between a b)]))"

definition getStatistics :: "DatabaseManager \<Rightarrow> filters \<Rightarrow> tables \<Rightarrow> error + statistics" where
  \<comment> \<open>Each of the four texts ends in \<^verbatim>\<open>WHERE type = '...'\<close> followed by
      \<^verbatim>\<open>${dateFilter}\<close>; \<^verbatim>\<open>Promise.all\<close> fails as soon as one of them does.\<close>
  "getStatistics m f s =
     (let pg = is_postgresql m;
          income = [Where (Type_eq ''income'')] @ dateFilter f;
          expense = [Where (Type_eq ''expense'')] @ dateFilter f
      in case query_rows m (select_coalesce_sum pg income) s of
           Inl e \<Rightarrow> Inl statistics_failed
         | Inr r0 \<Rightarrow>
        (case query_rows m (select_coalesce_sum pg expense) s of
           Inl e \<Rightarrow> Inl statistics_failed
         | Inr r1 \<Rightarrow>
        (case query_rows m (select_category_totals pg expense) s of
           Inl e \<Rightarrow> Inl statistics_failed
         | Inr r2 \<Rightarrow>
        (case query_rows m (select_category_totals pg income) s of
           Inl e \<Rightarrow> Inl statistics_failed
         | Inr r3 \<Rightarrow>
             Inr \<lparr>totalIncome = first_or_zero r0,
                  totalExpenses = first_or_zero r1,
                  balance = first_or_zero r0 - first_or_zero r1,
                  expensesByCategory = r2,
                  incomeByCategory = r3\<rparr>))))"

record monthly =
  month :: nat
  type :: string
  total :: real

definition getMonthlyData :: "DatabaseManager \<Rightarrow> nat \<Rightarrow> tables \<Rightarrow> error + monthly list" where
  \<comment> \<open>\<^verbatim>\<open>params = [year]\<close>, and \<^verbatim>\<open>year\<close> is a JavaScript number (the route passes
      \<^verbatim>\<open>parseInt(year)\<close>): the SQLite driver binds it as an INTEGER. The PostgreSQL text
      is \<^verbatim>\<open>WHERE EXTRACT(YEAR FROM date) = $1\<close>, the SQLite text
      \<^verbatim>\<open>WHERE strftime('%Y', date) = ?\<close>.\<close>
  "getMonthlyData m year s =
     (case query_rows m
             (select_monthly_totals (is_postgresql m)
                (if is_postgresql m then [Where (Extract_year_eq year)]
                 else [Where (Strftime_Y_eq (Integer (int year)))])) s of
        Inl e \<Rightarrow> Inl (Error ''Error al obtener los datos mensuales'')
      | Inr results \<Rightarrow>
          Inr (map (\<lambda>item. \<lparr>month = fst (fst item), type = snd (fst item), total = snd item\<rparr>)
                 results))"

section \<open>The category repository (server/models/Category.js)\<close>












definition first_row :: "'a list \<Rightarrow> 'a option" where
  \<comment> \<open>\<^verbatim>\<open>rows.length > 0 ? rows[0] : null\<close>\<close>
  "first_row rows = (case rows of [] \<Rightarrow> None | r # rs \<Rightarrow> Some r)"







definition in_use :: "nat \<Rightarrow> error" where
  "in_use usageCount =
     Error (''No se puede eliminar la categor'' @ i_acute @ ''a porque est'' @ a_acute @
            '' siendo usada en '' @ string_of_nat usageCount @
            '' transacci'' @ o_acute @ ''n(es)'')"

definition usage_count :: "nat \<Rightarrow> tables \<Rightarrow> nat" where
  \<comment> \<open>\<^verbatim>\<open>SELECT COUNT(*) FROM transactions WHERE category = (SELECT name FROM categories
      WHERE id = ?)\<close>: the inner query is NULL when no category has the id, and then no
      transaction is counted.\<close>
  "usage_count i s =
     (case first_row (filter (\<lambda>c. c_id c = i) (categories s)) of
        None \<Rightarrow> 0
      | Some c \<Rightarrow> length (filter (\<lambda>t. t_category t = c_name c) (transactions s)))"

definition delete_categories_run :: "nat \<Rightarrow> tables \<Rightarrow> (error + nat) \<times> tables" where
  \<comment> \<open>\<^verbatim>\<open>DELETE FROM categories WHERE id = ?\<close> on SQLite: the answer is \<^verbatim>\<open>changes\<close>.\<close>
  "delete_categories_run i s =
     (Inr (length (filter (\<lambda>c. c_id c = i) (categories s))),
      s\<lparr>categories := filter (\<lambda>c. c_id c \<noteq> i) (categories s)\<rparr>)"

definition delete_categories_rows :: "nat \<Rightarrow> tables \<Rightarrow> (error + Category list) \<times> tables" where
  \<comment> \<open>The same statement on PostgreSQL: \<^verbatim>\<open>queryPostgreSQL\<close> answers \<^verbatim>\<open>result.rows\<close>, and a
      \<^verbatim>\<open>DELETE\<close> without \<^verbatim>\<open>RETURNING\<close> has no rows.\<close>
  "delete_categories_rows i s =
     (Inr [], s\<lparr>categories := filter (\<lambda>c. c_id c \<noteq> i) (categories s)\<rparr>)"

definition Category_delete :: "DatabaseManager \<Rightarrow> nat \<Rightarrow> tables \<Rightarrow> (error + bool) \<times> tables" where
  \<comment> \<open>The count and the delete are two statements. On PostgreSQL the answer is
      \<^verbatim>\<open>result.length > 0 || result.rowCount > 0\<close>, on an array that has no \<^verbatim>\<open>rowCount\<close>.
      Every error is thrown on as it is.\<close>
  "Category_delete m i s =
     (case query_rows m (\<lambda>s. Inr (usage_count i s)) s of
        Inl e \<Rightarrow> (Inl e, s)
      | Inr usageCount \<Rightarrow>
          if usageCount > 0 then (Inl (in_use usageCount), s)
          else if is_postgresql m then
            (case query m (delete_categories_rows i) s of
               (Inl e, s') \<Rightarrow> (Inl e, s')
             | (Inr result, s') \<Rightarrow> (Inr (length result > 0), s'))
          else
            (case query m (delete_categories_run i) s of
               (Inl e, s') \<Rightarrow> (Inl e, s')
             | (Inr changes, s') \<Rightarrow> (Inr (changes > 0), s')))"

section \<open>The REST surface (server/index.js)\<close>

record response =
  status :: nat
  body :: "(string \<times> string) list"

definition errorHandler :: "string \<Rightarrow> error \<Rightarrow> response" where
  \<comment> \<open>The first argument is \<^verbatim>\<open>NODE_ENV\<close>.\<close>
  "errorHandler node_env err =
     (if err_name err = ''ValidationError'' then
        \<lparr>status = 400,
         body = [(''error'', ''Error de validaci'' @ o_acute @ ''n''),
                 (''details'', err_message err)]\<rparr>
      else if err_code err = Some ''SQLITE_CONSTRAINT'' \<or> err_code err = Some ''23505'' then
        \<lparr>status = 409,
         body = [(''error'', ''Conflicto en la base de datos''),
                 (''details'', ''El recurso ya existe o viola una restricci'' @ o_acute @ ''n'')]\<rparr>
      else
        \<lparr>status = 500,
         body = [(''error'', ''Error interno del servidor''),
                 (''details'', if node_env = ''development'' then err_message err
                               else ''Algo sali'' @ o_acute @ '' mal'')]\<rparr>)"

definition delete_category_route ::
  "string \<Rightarrow> DatabaseManager \<Rightarrow> nat \<Rightarrow> tables \<Rightarrow> response \<times> tables" where
  \<comment> \<open>\<^verbatim>\<open>app.delete('/api/categories/:id', ...)\<close>\<close>
  "delete_category_route node_env m i s =
     (case Category_delete m i s of
        (Inl e, s') \<Rightarrow> (errorHandler node_env e, s')
      | (Inr deleted, s') \<Rightarrow>
          if \<not> deleted then
            (\<lparr>status = 404, body = [(''error'', ''Categor'' @ i_acute @ ''a no encontrada'')]\<rparr>, s')
          else
            (\<lparr>status = 200,
              body = [(''message'', ''Categor'' @ i_acute @ ''a eliminada correctamente'')]\<rparr>, s'))"

definition get_summary_route :: "string \<Rightarrow> DatabaseManager \<Rightarrow> filters \<Rightarrow> tables \<Rightarrow> nat" where
  \<comment> \<open>\<^verbatim>\<open>app.get('/api/summary', ...)\<close>: the status of the response.\<close>
  "get_summary_route node_env m f s =
     (case getStatistics m f s of
        Inl e \<Rightarrow> status (errorHandler node_env e)
      | Inr summary \<Rightarrow> 200)"

definition ready :: "DatabaseManager \<Rightarrow> bool" where
  \<comment> \<open>The manager has connected and its handle is open: statements reach the engine.\<close>
  "ready m = (query_guard m = None)"

section \<open>Example data\<close>

text \<open>
  The scenario of the spec: a category "Ocio" and one expense of 25.00 on 2024-01-12,
  stored at the clock readings 900 and 1000.
\<close>

definition empty_tables :: tables where
  "empty_tables = \<lparr>transactions = [], transactions_seq = 0, categories = [], categories_seq = 0\<rparr>"

definition cine_data :: TransactionData where
  "cine_data = \<lparr>td_type = ''expense'', td_amount = 25, td_description = ''Cine'',
                 td_category = ''Ocio'', td_date = (2024, 1, 12)\<rparr>"

definition cine_row :: Transaction where
  "cine_row = \<lparr>t_id = 1, t_type = ''expense'', t_amount = 25, t_description = ''Cine'',
                t_category = ''Ocio'', t_date = (2024, 1, 12), t_created_at = 1000,
                t_updated_at = 1000\<rparr>"

definition no_rows :: sqlite_table where
  "no_rows = \<lparr>stored_rows = [], stored_seq = 0\<rparr>"

definition cine_stored :: stored_transaction where
  "cine_stored = \<lparr>s_id = 1, s_type = ''expense'', s_amount = 25, s_description = ''Cine'',
                   s_category = ''Ocio'', s_date = ''1705017600000.0'', s_created_at = 1000,
                   s_updated_at = 1000\<rparr>"

definition ocio_row :: Category where
  "ocio_row = \<lparr>c_id = 1, c_name = ''Ocio'', c_type = ''expense'', c_description = None,
                c_color = None, c_icon = None, c_created_at = 900, c_updated_at = 900\<rparr>"

definition ocio_tables :: tables where
  "ocio_tables = \<lparr>transactions = [], transactions_seq = 0, categories = [ocio_row],
                   categories_seq = 1\<rparr>"

definition cine_tables :: tables where
  "cine_tables = \<lparr>transactions = [cine_row], transactions_seq = 1, categories = [ocio_row],
                   categories_seq = 1\<rparr>"

definition january :: filters where
  "january = no_filters\<lparr>f_startDate := Some (2024, 1, 1), f_endDate := Some (2024, 1, 31)\<rparr>"

definition march_row :: Transaction where
  "march_row = \<lparr>t_id = 1, t_type = ''income'', t_amount = 100, t_description = ''Salario'',
                 t_category = ''Salario'', t_date = (2024, 3, 5), t_created_at = 1000,
                 t_updated_at = 1000\<rparr>"

definition march_tables :: tables where
  "march_tables = \<lparr>transactions = [march_row], transactions_seq = 1, categories = [],
                    categories_seq = 0\<rparr>"


definition cena_row :: Transaction where
  "cena_row = \<lparr>t_id = 2, t_type = ''expense'', t_amount = 40, t_description = ''Cena'',
                t_category = ''Ocio'', t_date = (2024, 1, 20), t_created_at = 1001,
                t_updated_at = 1001\<rparr>"

definition history_tables :: tables where
  "history_tables = \<lparr>transactions = [cine_row, cena_row, march_row\<lparr>t_id := 3\<rparr>],
                      transactions_seq = 3, categories = [ocio_row], categories_seq = 1\<rparr>"

definition expense_january :: filters where
  "expense_january = \<lparr>f_type = Some ''expense'', f_category = Some ''Ocio'',
                       f_startDate = Some (2024, 1, 1), f_endDate = Some (2024, 1, 31),
                       f_limit = Some 1\<rparr>"





section \<open>The words of the specification\<close>

text \<open>
  What the spec says of a result, written down independently of the SQL: a row
  satisfies the filters that are supplied (an empty string counts as not supplied), a
  list runs from the newest row to the oldest, a row belongs to a year, month and kind.
\<close>

definition satisfies :: "filters \<Rightarrow> Transaction \<Rightarrow> bool" where
  "satisfies f t =
     ((case f_type f of None \<Rightarrow> True | Some x \<Rightarrow> x = [] \<or> t_type t = x) \<and>
      (case f_category f of None \<Rightarrow> True | Some x \<Rightarrow> x = [] \<or> t_category t = x) \<and>
      (case f_startDate f of None \<Rightarrow> True | Some d \<Rightarrow> d \<le> t_date t) \<and>
      (case f_endDate f of None \<Rightarrow> True | Some d \<Rightarrow> t_date t \<le> d))"

definition newest_first :: "Transaction list \<Rightarrow> bool" where
  "newest_first rows =
     sorted_wrt (\<lambda>a b. (t_date b, t_created_at b) \<le> (t_date a, t_created_at a)) rows"

definition in_month :: "nat \<Rightarrow> nat \<Rightarrow> string \<Rightarrow> Transaction \<Rightarrow> bool" where
  "in_month y mo ty t = (year_of (t_date t) = y \<and> month_of (t_date t) = mo \<and> t_type t = ty)"



text \<open>The transactions whose category field is the name of a category.\<close>

definition referencing :: "Category \<Rightarrow> tables \<Rightarrow> Transaction list" where
  "referencing c s = filter (\<lambda>t. t_category t = c_name c) (transactions s)"

section \<open>Closing the connection\<close>

lemma close_postgresql_inactive:
  "dbType m = ''postgresql'' \<Longrightarrow> connection m = Some h \<Longrightarrow> \<not> closed h \<Longrightarrow>
   fst (close m) = Inr () \<and> \<not> isConnectionActive (snd (close m))"
  by (simp add: close_def pool_end_def isConnectionActive_def)

lemma close_sqlite_keeps_flag:
  "dbType m \<noteq> ''postgresql'' \<Longrightarrow>
   fst (close m) = Inr () \<and> isConnectionActive (snd (close m)) = isConnectionActive m"
  by (simp add: close_def isConnectionActive_def split: option.splits)

text \<open>
  C9 (close is idempotent and leaves the manager inactive), evaluated on the embedded-file
  backend: a manager that connected to SQLite is closed twice. Both calls resolve, but
  after each of them \<^verbatim>\<open>isConnectionActive()\<close> still answers true, although the handle
  is closed: only the PostgreSQL branch reaches \<^verbatim>\<open>this.isConnected = false\<close>.
\<close>

theorem close_twice_sqlite_still_active:
  "fst (close sqlite_manager) = Inr () \<and>
   fst (close (snd (close sqlite_manager))) = Inr () \<and>
   isConnectionActive (snd (close sqlite_manager)) \<and>
   isConnectionActive (snd (close (snd (close sqlite_manager)))) \<and>
   connection (snd (close (snd (close sqlite_manager)))) = Some (Handle True)"
  by (simp add: close_def sqlite_manager_def connect_def constructor_def
      isConnectionActive_def sqlite_close_def)

section \<open>Statements that reach the engine\<close>

lemma query_ready: "ready m \<Longrightarrow> query m stmt s = stmt s"
  by (simp add: ready_def query_def)

lemma query_rows_ready: "ready m \<Longrightarrow> query_rows m sel s = sel s"
  by (simp add: query_rows_def query_ready)

lemma ready_sqlite_manager: "ready sqlite_manager"
  by (simp add: ready_def query_guard_def sqlite_manager_def connect_def constructor_def)

lemma ready_postgresql_manager: "ready postgresql_manager"
  by (simp add: ready_def query_guard_def postgresql_manager_def connect_def constructor_def)

lemma sqlite_manager_not_postgresql: "\<not> is_postgresql sqlite_manager"
  by (simp add: is_postgresql_def getDatabaseType_def sqlite_manager_def connect_def
      constructor_def)

lemma postgresql_manager_is_postgresql: "is_postgresql postgresql_manager"
  by (simp add: is_postgresql_def getDatabaseType_def postgresql_manager_def connect_def
      constructor_def)

lemma query_rows_cases:
  "query_rows m sel s = sel s \<or> (\<exists>e. query_rows m sel s = Inl e)"
  by (cases "query_guard m") (simp_all add: query_rows_def query_def)

section \<open>Summary statistics\<close>

lemma from_transactions_two_wheres:
  "from_transactions pg (Where c # Where d # fs) s = Inl (syntax_error pg)"
  by (simp add: from_transactions_def)

lemma query_rows_two_wheres:
  "\<exists>e. query_rows m (select_coalesce_sum pg (Where c # Where d # fs)) s = Inl e"
  using query_rows_cases [of m "select_coalesce_sum pg (Where c # Where d # fs)" s]
  by (auto simp: select_coalesce_sum_def from_transactions_two_wheres)

text \<open>
  With both dates given, the text of every statement of \<open>getStatistics\<close> holds two
  \<^verbatim>\<open>WHERE\<close>s, the engine rejects the first of them, and the operation throws: on either
  backend, for any stored tables.
\<close>

lemma getStatistics_both_dates:
  assumes "f_startDate f = Some a" and "f_endDate f = Some b"
  shows "getStatistics m f s = Inl statistics_failed"
proof -
  have d: "dateFilter f = [Where (Date_between a b)]"
    using assms by (simp add: dateFilter_def)
  obtain e where
    "query_rows m (select_coalesce_sum (is_postgresql m)
       (Where (Type_eq ''income'') # Where (Date_between a b) # [])) s = Inl e"
    using query_rows_two_wheres by blast
  then show ?thesis
    by (simp add: getStatistics_def d)
qed

text \<open>Without a date range the defaults are as the spec has them.\<close>

lemma getStatistics_without_range_no_rows:
  assumes "ready m" and "dateFilter f = []"
    and "filter (\<lambda>t. t_type t = ''income'') (transactions s) = []"
    and "filter (\<lambda>t. t_type t = ''expense'') (transactions s) = []"
  shows "getStatistics m f s =
    Inr \<lparr>totalIncome = 0, totalExpenses = 0, balance = 0,
         expensesByCategory = [], incomeByCategory = []\<rparr>"
  using assms
  by (simp add: getStatistics_def query_rows_ready select_coalesce_sum_def
      select_category_totals_def from_transactions_def matching_def sql_sum_def coalesce_def
      first_or_zero_def group_sum_def order_by_desc_def)

text \<open>
  C1 (with both startDate and endDate, getStatistics succeeds and returns the totals and
  breakdowns of the transactions dated in the range), evaluated on the scenario's tables
  with the range 2024-01-01 to 2024-01-31, which holds the one stored expense: on both
  backends the operation throws instead, and the summary route answers 500.
\<close>

theorem getStatistics_date_range_throws:
  "getStatistics sqlite_manager january cine_tables = Inl statistics_failed \<and>
   getStatistics postgresql_manager january cine_tables = Inl statistics_failed \<and>
   get_summary_route ''production'' sqlite_manager january cine_tables = 500"
proof -
  have "getStatistics m january s = Inl statistics_failed" for m s
    by (rule getStatistics_both_dates [of january "(2024, 1, 1)" "(2024, 1, 31)"])
      (simp_all add: january_def)
  then show ?thesis
    by (simp add: get_summary_route_def errorHandler_def statistics_failed_def Error_def)
qed

text \<open>
  C2 (when no transaction matches, getStatistics returns zero totals and empty
  breakdowns), evaluated on empty tables with the same date range: nothing matches, and
  the operation throws instead of returning the zero record.
\<close>

theorem getStatistics_nothing_matches_throws:
  "transactions empty_tables = [] \<and>
   getStatistics sqlite_manager january empty_tables = Inl statistics_failed \<and>
   getStatistics postgresql_manager january empty_tables = Inl statistics_failed"
proof -
  have "getStatistics m january s = Inl statistics_failed" for m s
    by (rule getStatistics_both_dates [of january "(2024, 1, 1)" "(2024, 1, 31)"])
      (simp_all add: january_def)
  then show ?thesis
    by (simp add: empty_tables_def)
qed

section \<open>Generated keys\<close>

lemma fold_max_ge: "i \<in> set ids \<Longrightarrow> i \<le> fold max ids (seq::nat)"
proof -
  assume "i \<in> set ids"
  then have "i \<le> Max (set (seq # ids))" by (intro Max_ge) auto
  then show ?thesis by (simp only: Max.set_eq_fold)
qed

lemma next_id_fresh: "i \<in> set ids \<Longrightarrow> i < next_id seq ids"
  by (simp add: next_id_def fold_max_ge less_Suc_eq_le)

lemma next_id_not_in: "next_id seq ids \<notin> set ids"
  using next_id_fresh [of "next_id seq ids" ids seq] by auto

lemma filter_id_fresh:
  "filter (\<lambda>t. t_id t = next_id seq (map t_id rows)) rows = []"
proof -
  have "\<forall>t\<in>set rows. t_id t \<noteq> next_id seq (map t_id rows)"
    using next_id_not_in [of seq "map t_id rows"] by force
  then show ?thesis by (simp add: filter_empty_conv)
qed

section \<open>Creating, reading and deleting a transaction\<close>



lemma schema_check: "transactionSchema d = [] \<Longrightarrow> check_transaction d"
  by (simp add: transactionSchema_def check_transaction_def split: if_splits)

lemma validate_accepts: "transactionSchema d = [] \<Longrightarrow> Transaction_validate d = Inr d"
  by (simp add: Transaction_validate_def)

lemma cine_data_valid: "transactionSchema cine_data = []"
  by (simp add: transactionSchema_def cine_data_def calendar_date_def month_of_def day_of_def)

lemma filter_stored_id_fresh:
  "filter (\<lambda>r. s_id r = next_id seq (map s_id stored)) stored = []"
proof -
  have "\<forall>r\<in>set stored. s_id r \<noteq> next_id seq (map s_id stored)"
    using next_id_not_in [of seq "map s_id stored"] by force
  then show ?thesis by (simp add: filter_empty_conv)
qed

lemma stored_getById_ready:
  "ready m \<Longrightarrow>
   stored_getById m i f = Inr (first_row (filter (\<lambda>r. s_id r = i) (stored_rows f)))"
  by (simp add: stored_getById_def query_rows_ready first_row_def)

text \<open>
  What create and getById return on SQLite for a valid candidate: a new id, the
  timestamps of the insert, kind, amount, description and category as the candidate has
  them, and for the date the text of its milliseconds.
\<close>

lemma create_sqlite_stores_milliseconds:
  assumes "ready m" and "transactionSchema d = []"
  shows "\<exists>row f'. Transaction_create_sqlite m d now f = (Inr (Some row), f') \<and>
           stored_getById m (s_id row) f' = Inr (Some row) \<and>
           s_type row = td_type d \<and> s_amount row = td_amount d \<and>
           s_description row = td_description d \<and> s_category row = td_category d \<and>
           s_date row = real_text (getTime (td_date d)) \<and>
           s_id row \<notin> s_id ` set (stored_rows f) \<and>
           s_created_at row = now \<and> s_updated_at row = now"
proof -
  define i where "i = next_id (stored_seq f) (map s_id (stored_rows f))"
  define row where
    "row = \<lparr>s_id = i, s_type = td_type d, s_amount = td_amount d,
            s_description = td_description d, s_category = td_category d,
            s_date = real_text (getTime (td_date d)), s_created_at = now,
            s_updated_at = now\<rparr>"
  define f' where "f' = f\<lparr>stored_rows := stored_rows f @ [row], stored_seq := i\<rparr>"
  have ins: "insert_transaction d now f = (Inr i, f')"
    using schema_check [OF assms(2)]
    by (simp add: insert_transaction_def Let_def i_def row_def f'_def)
  have "filter (\<lambda>r. s_id r = i) (stored_rows f) = []"
    unfolding i_def by (rule filter_stored_id_fresh)
  then have found: "stored_getById m i f' = Inr (Some row)"
    using assms(1) by (simp add: stored_getById_ready f'_def row_def first_row_def)
  have created: "Transaction_create_sqlite m d now f = (Inr (Some row), f')"
    using assms found
    by (simp add: Transaction_create_sqlite_def validate_accepts query_ready ins)
  have fresh: "s_id row \<notin> s_id ` set (stored_rows f)"
    using next_id_not_in [of "stored_seq f" "map s_id (stored_rows f)"]
    by (simp add: row_def i_def)
  show ?thesis
    using created found fresh by (intro exI [of _ row] exI [of _ f']) (simp add: row_def)
qed

lemma cine_milliseconds: "real_text (getTime (2024, 1, 12)) = ''1705017600000.0''"
  by (simp add: real_text_def getTime_def days_from_civil_def year_of_def month_of_def
      day_of_def string_of_nat.simps)

lemma cine_iso_text: "iso_text (2024, 1, 12) = ''2024-01-12''"
  by code_simp

text \<open>
  C6 (create followed by getById yields a record equal to the candidate on kind, amount,
  description, category and date), evaluated on the SQLite backend with an empty table
  and the candidate of the scenario, whose date is the string 2024-01-12: both calls
  return the same record, and its date is the text 1705017600000.0, the milliseconds of
  the \<^verbatim>\<open>Date\<close> that the validation made of the string.
\<close>

theorem create_sqlite_returns_another_date:
  "iso_text (td_date cine_data) = ''2024-01-12'' \<and>
   Transaction_create_sqlite sqlite_manager cine_data 1000 no_rows =
     (Inr (Some cine_stored), \<lparr>stored_rows = [cine_stored], stored_seq = 1\<rparr>) \<and>
   stored_getById sqlite_manager 1 \<lparr>stored_rows = [cine_stored], stored_seq = 1\<rparr> =
     Inr (Some cine_stored) \<and>
   s_date cine_stored = ''1705017600000.0'' \<and>
   s_date cine_stored \<noteq> iso_text (td_date cine_data)"
proof -
  have i: "iso_text (td_date cine_data) = ''2024-01-12''"
    by (simp add: cine_data_def cine_iso_text del: One_nat_def)
  have v: "Transaction_validate cine_data = Inr cine_data"
    by (rule validate_accepts [OF cine_data_valid])
  have n: "insert_transaction cine_data 1000 no_rows =
      (Inr 1, \<lparr>stored_rows = [cine_stored], stored_seq = 1\<rparr>)"
    using schema_check [OF cine_data_valid]
    by (simp add: insert_transaction_def Let_def no_rows_def next_id_def cine_stored_def
        cine_data_def cine_milliseconds del: One_nat_def)
  have g: "stored_getById sqlite_manager 1 \<lparr>stored_rows = [cine_stored], stored_seq = 1\<rparr> =
      Inr (Some cine_stored)"
    by (simp add: stored_getById_ready ready_sqlite_manager first_row_def cine_stored_def)
  have c: "Transaction_create_sqlite sqlite_manager cine_data 1000 no_rows =
      (Inr (Some cine_stored), \<lparr>stored_rows = [cine_stored], stored_seq = 1\<rparr>)"
    using g by (simp add: Transaction_create_sqlite_def v query_ready ready_sqlite_manager n)
  show ?thesis
    using i c g by (simp add: cine_stored_def)
qed

text \<open>
  C7: on a manager whose statements reach the engine, delete never throws: it returns
  whether a row had the id and leaves the table without such rows, so that a second
  delete of the same id returns false; when a row has the id, the two calls return true,
  then false.
\<close>

theorem delete_reports_removal:
  assumes "ready m"
  shows "\<exists>s'. Transaction_delete m i s = (Inr (i \<in> t_id ` set (transactions s)), s') \<and>
           transactions s' = filter (\<lambda>t. t_id t \<noteq> i) (transactions s) \<and>
           Transaction_delete m i s' = (Inr False, s')"
proof -
  define s' where "s' = s\<lparr>transactions := filter (\<lambda>t. t_id t \<noteq> i) (transactions s)\<rparr>"
  have n: "(filter (\<lambda>t. t_id t = i) rows \<noteq> []) = (i \<in> t_id ` set rows)"
    for rows :: "Transaction list"
    by (force simp: filter_empty_conv)
  have first: "Transaction_delete m i s = (Inr (i \<in> t_id ` set (transactions s)), s')"
    using assms by (simp add: Transaction_delete_def query_ready delete_transactions_def n s'_def)
  have "filter (\<lambda>t. t_id t = i) (transactions s') = []"
    by (simp add: s'_def filter_empty_conv)
  moreover have "filter (\<lambda>t. t_id t \<noteq> i) (transactions s') = transactions s'"
    by (simp add: s'_def)
  ultimately have second: "Transaction_delete m i s' = (Inr False, s')"
    using assms by (simp add: Transaction_delete_def query_ready delete_transactions_def)
  show ?thesis using first second by (intro exI [of _ s']) (simp add: s'_def)
qed

theorem delete_reports_removal_witness:
  "ready sqlite_manager \<and> 1 \<in> t_id ` set (transactions cine_tables) \<and>
   (\<exists>s'. Transaction_delete sqlite_manager 1 cine_tables = (Inr True, s') \<and>
      transactions s' = [] \<and>
      Transaction_delete sqlite_manager 1 s' = (Inr False, s'))"
  using delete_reports_removal [OF ready_sqlite_manager, of 1 cine_tables] ready_sqlite_manager
  by (simp add: cine_tables_def cine_row_def)

section \<open>Listing transactions\<close>

lemma and_chain_piece:
  "and_chain (piece b (\<lambda>x. And (g x)) v @ fs) =
   map_option (\<lambda>cs. (case v of None \<Rightarrow> [] | Some x \<Rightarrow> if b then [g x] else []) @ cs)
     (and_chain fs)"
  by (cases v) (simp_all add: piece_def option.map_ident)

lemma getAll_text:
  "from_transactions pg
     ([Where One_eq_One] @
      piece (truthy_string (f_type f)) (\<lambda>x. And (Type_eq x)) (f_type f) @
      piece (truthy_string (f_category f)) (\<lambda>x. And (Category_eq x)) (f_category f) @
      piece (truthy_date (f_startDate f)) (\<lambda>x. And (Date_ge x)) (f_startDate f) @
      piece (truthy_date (f_endDate f)) (\<lambda>x. And (Date_le x)) (f_endDate f)) s =
   Inr (filter (satisfies f) (transactions s))"
proof -
  have "and_chain
     (piece (truthy_string (f_type f)) (\<lambda>x. And (Type_eq x)) (f_type f) @
      piece (truthy_string (f_category f)) (\<lambda>x. And (Category_eq x)) (f_category f) @
      piece (truthy_date (f_startDate f)) (\<lambda>x. And (Date_ge x)) (f_startDate f) @
      piece (truthy_date (f_endDate f)) (\<lambda>x. And (Date_le x)) (f_endDate f) @ []) =
    Some ((case f_type f of None \<Rightarrow> [] | Some x \<Rightarrow> if x \<noteq> [] then [Type_eq x] else []) @
          (case f_category f of None \<Rightarrow> [] | Some x \<Rightarrow> if x \<noteq> [] then [Category_eq x] else []) @
          (case f_startDate f of None \<Rightarrow> [] | Some x \<Rightarrow> [Date_ge x]) @
          (case f_endDate f of None \<Rightarrow> [] | Some x \<Rightarrow> [Date_le x]))"
    by (simp only: and_chain_piece and_chain.simps option.map)
      (simp add: truthy_string_def truthy_date_def split: option.splits)
  then show ?thesis
    by (auto simp: from_transactions_def matching_def satisfies_def
        split: option.splits intro!: filter_cong)
qed

lemma mset_order_by_desc: "mset (order_by_desc k rows) = mset rows"
  by (simp add: order_by_desc_def)

lemma sorted_order_by_desc: "sorted_wrt (\<lambda>a b. k b \<le> k a) (order_by_desc k rows)"
  using sorted_sort_key [of k rows]
  by (simp add: order_by_desc_def sorted_wrt_rev sorted_map)

text \<open>
  C5, as the claim states it (the result is truncated to at most limit rows whenever a
  limit is supplied), fails for the limit 0: \<^verbatim>\<open>if (filters.limit)\<close> skips it, and the
  one stored row comes back.
\<close>

theorem getAll_limit_zero_counterexample:
  "Transaction_getAll sqlite_manager (no_filters\<lparr>f_limit := Some 0\<rparr>) cine_tables = Inr [cine_row]"
  by (simp add: Transaction_getAll_def Let_def query_rows_ready ready_sqlite_manager
      select_transactions_def from_transactions_def matching_def limit_rows_def
      truthy_number_def truthy_string_def truthy_date_def piece_def no_filters_def
      cine_tables_def order_by_desc_def)

text \<open>
  C5, amended: on a manager whose statements reach the engine, for every store and every
  filter object whose limit, if any, is not negative, the list operation never throws.
  Its result is a list \<open>all\<close> holding exactly the rows that satisfy every supplied
  non-empty filter, ordered by date descending, then creation time descending; when a
  limit other than 0 is supplied it is cut to its first limit rows, and a limit of 0 is
  ignored. When nothing matches, the result is the empty list.
\<close>

theorem getAll_filters_orders_limits:
  assumes "ready m" and "case f_limit f of None \<Rightarrow> True | Some n \<Rightarrow> 0 \<le> n"
  shows "\<exists>all. mset all = mset (filter (satisfies f) (transactions s)) \<and>
           newest_first all \<and>
           Transaction_getAll m f s =
             Inr (case f_limit f of
                    None \<Rightarrow> all
                  | Some n \<Rightarrow> if n = 0 then all else take (nat n) all) \<and>
           (filter (satisfies f) (transactions s) = [] \<longrightarrow> Transaction_getAll m f s = Inr [])"
proof -
  define all where
    "all = order_by_desc (\<lambda>t. (t_date t, t_created_at t)) (filter (satisfies f) (transactions s))"
  have 1: "mset all = mset (filter (satisfies f) (transactions s))"
    by (simp add: all_def mset_order_by_desc)
  have 2: "newest_first all"
    unfolding newest_first_def all_def by (rule sorted_order_by_desc)
  have 3: "Transaction_getAll m f s =
             Inr (case f_limit f of
                    None \<Rightarrow> all
                  | Some n \<Rightarrow> if n = 0 then all else take (nat n) all)"
    using assms
    by (simp add: Transaction_getAll_def Let_def query_rows_ready select_transactions_def
        getAll_text [simplified] limit_rows_def truthy_number_def all_def split: option.splits)
  have 4: "filter (satisfies f) (transactions s) = [] \<longrightarrow> Transaction_getAll m f s = Inr []"
    using 3 by (auto simp: all_def order_by_desc_def split: option.splits)
  show ?thesis using 1 2 3 4 by blast
qed

theorem getAll_filters_orders_limits_witness:
  "ready sqlite_manager \<and>
   (case f_limit expense_january of None \<Rightarrow> True | Some n \<Rightarrow> 0 \<le> n) \<and>
   filter (satisfies expense_january) (transactions history_tables) = [cine_row, cena_row] \<and>
   Transaction_getAll sqlite_manager expense_january history_tables = Inr [cena_row] \<and>
   (\<exists>all. mset all = mset (filter (satisfies expense_january) (transactions history_tables)) \<and>
      newest_first all \<and>
      Transaction_getAll sqlite_manager expense_january history_tables = Inr (take 1 all))"
proof -
  have l: "case f_limit expense_january of None \<Rightarrow> True | Some n \<Rightarrow> 0 \<le> n"
    by (simp add: expense_january_def)
  have f: "filter (satisfies expense_january) (transactions history_tables) = [cine_row, cena_row]"
    by (simp add: satisfies_def expense_january_def history_tables_def cine_row_def
        cena_row_def march_row_def)
  have g: "Transaction_getAll sqlite_manager expense_january history_tables = Inr [cena_row]"
    by (simp add: Transaction_getAll_def Let_def query_rows_ready ready_sqlite_manager
        select_transactions_def from_transactions_def matching_def limit_rows_def
        truthy_number_def truthy_string_def truthy_date_def piece_def expense_january_def
        history_tables_def order_by_desc_def cine_row_def cena_row_def march_row_def)
  from getAll_filters_orders_limits [OF ready_sqlite_manager l, of history_tables]
  obtain all where a:
    "mset all = mset (filter (satisfies expense_january) (transactions history_tables))"
    "newest_first all"
    "Transaction_getAll sqlite_manager expense_january history_tables =
       Inr (case f_limit expense_january of
              None \<Rightarrow> all
            | Some n \<Rightarrow> if n = 0 then all else take (nat n) all)"
    by blast
  have "f_limit expense_january = Some 1"
    by (simp add: expense_january_def)
  with a(3) have "Transaction_getAll sqlite_manager expense_january history_tables =
      Inr (take 1 all)"
    by simp
  with a(1,2) have e:
    "\<exists>all. mset all = mset (filter (satisfies expense_january) (transactions history_tables)) \<and>
       newest_first all \<and>
       Transaction_getAll sqlite_manager expense_january history_tables = Inr (take 1 all)"
    by blast
  show ?thesis
    using ready_sqlite_manager l f g e by (intro conjI)
qed

section \<open>Monthly totals\<close>

lemma map_fst_group_sum: "map fst (group_sum k rows) = remdups (map k rows)"
  by (simp add: group_sum_def comp_def)

lemma group_sum_entry:
  "e \<in> set (group_sum k rows) \<Longrightarrow>
   fst e \<in> k ` set rows \<and> snd e = sum_list (map t_amount (filter (\<lambda>t. k t = fst e) rows))"
  by (auto simp: group_sum_def)

lemma distinct_keys_sorted:
  "distinct (map fst (sort_key fst (group_sum k rows)))"
proof -
  have "distinct (map fst (group_sum k rows))"
    by (simp add: map_fst_group_sum)
  then have "distinct (group_sum k rows) \<and> inj_on fst (set (group_sum k rows))"
    by (simp add: distinct_map)
  then show ?thesis
    by (simp add: distinct_map)
qed

text \<open>
  On SQLite the year of no row equals the bound number: whatever \<^verbatim>\<open>strftime\<close> gives is
  TEXT or NULL, and the parameter is an INTEGER.
\<close>

lemma strftime_Y_never_integer: "\<not> sqlite_equals (strftime_Y d) (Integer n)"
  by (simp add: sqlite_equals_def strftime_Y_def)

lemma getMonthlyData_sqlite:
  "ready m \<Longrightarrow> \<not> is_postgresql m \<Longrightarrow> getMonthlyData m y s = Inr []"
  by (simp add: getMonthlyData_def query_rows_ready select_monthly_totals_def
      from_transactions_def matching_def strftime_Y_never_integer group_sum_def)

lemma monthly_rows:
  "ready m \<Longrightarrow> is_postgresql m \<Longrightarrow>
   getMonthlyData m y s =
   Inr (map (\<lambda>item. \<lparr>month = fst (fst item), type = snd (fst item), total = snd item\<rparr>)
          (sort_key fst (group_sum (\<lambda>t. (month_of (t_date t), t_type t))
             (filter (\<lambda>t. year_of (t_date t) = y) (transactions s)))))"
  by (simp add: getMonthlyData_def query_rows_ready select_monthly_totals_def
      from_transactions_def matching_def)

text \<open>
  The PostgreSQL branch does what the spec says: on a table whose dates are calendar
  dates the entries are ordered by month, then kind, no two of them for the same month
  and kind; each entry has a month from 1 to 12, stands for at least one transaction of
  that year, month and kind, and its total is the sum of their amounts; and every
  transaction of the year has its month and kind among the entries.
\<close>

lemma getMonthlyData_postgresql_groups:
  assumes "ready m" and "is_postgresql m"
    and "list_all (\<lambda>t. calendar_date (t_date t)) (transactions s)"
  shows "\<exists>rows. getMonthlyData m y s = Inr rows \<and>
           sorted (map (\<lambda>r. (month r, type r)) rows) \<and>
           distinct (map (\<lambda>r. (month r, type r)) rows) \<and>
           (\<forall>r\<in>set rows.
              1 \<le> month r \<and> month r \<le> 12 \<and>
              filter (in_month y (month r) (type r)) (transactions s) \<noteq> [] \<and>
              total r =
                sum_list (map t_amount (filter (in_month y (month r) (type r)) (transactions s)))) \<and>
           (\<forall>t\<in>set (transactions s).
              year_of (t_date t) = y \<longrightarrow>
              (month_of (t_date t), t_type t) \<in> set (map (\<lambda>r. (month r, type r)) rows))"
proof -
  define k where "k = (\<lambda>t::Transaction. (month_of (t_date t), t_type t))"
  define sel where "sel = filter (\<lambda>t. year_of (t_date t) = y) (transactions s)"
  define groups where "groups = sort_key fst (group_sum k sel)"
  define rows where
    "rows = map (\<lambda>item. \<lparr>month = fst (fst item), type = snd (fst item), total = snd item\<rparr>) groups"
  have res: "getMonthlyData m y s = Inr rows"
    using assms(1,2) by (simp add: monthly_rows rows_def groups_def k_def sel_def)
  have keys: "map (\<lambda>r. (month r, type r)) rows = map fst groups"
    by (simp add: rows_def comp_def)
  have srt: "sorted (map fst groups)"
    unfolding groups_def by (rule sorted_sort_key)
  have dst: "distinct (map fst groups)"
    unfolding groups_def by (rule distinct_keys_sorted)
  have filt: "filter (\<lambda>t. k t = (mo, ty)) sel = filter (in_month y mo ty) (transactions s)"
    for mo ty
    by (auto simp: sel_def k_def in_month_def intro!: filter_cong)
  have each: "1 \<le> month r \<and> month r \<le> 12 \<and>
        filter (in_month y (month r) (type r)) (transactions s) \<noteq> [] \<and>
        total r = sum_list (map t_amount (filter (in_month y (month r) (type r)) (transactions s)))"
    if "r \<in> set rows" for r
  proof -
    from that obtain e where e: "e \<in> set (group_sum k sel)"
      and r: "r = \<lparr>month = fst (fst e), type = snd (fst e), total = snd e\<rparr>"
      by (auto simp: rows_def groups_def)
    from group_sum_entry [OF e] obtain t where t: "t \<in> set sel" "fst e = k t"
      and tot: "snd e = sum_list (map t_amount (filter (\<lambda>t. k t = fst e) sel))"
      by auto
    have key: "fst e = (month r, type r)" by (simp add: r)
    have cal: "calendar_date (t_date t)"
      using t(1) assms(3) by (simp add: sel_def list_all_iff)
    have mo: "month r = month_of (t_date t)"
      using t(2) by (simp add: r k_def)
    have "t \<in> set (filter (\<lambda>t. k t = (month r, type r)) sel)"
      using t key by simp
    then have ne: "filter (in_month y (month r) (type r)) (transactions s) \<noteq> []"
      unfolding filt by (auto simp: filter_empty_conv)
    have tr: "total r = snd e" by (simp add: r)
    show ?thesis
      using cal mo ne tot tr by (simp add: key filt calendar_date_def)
  qed
  have cover: "(month_of (t_date t), t_type t) \<in> set (map (\<lambda>r. (month r, type r)) rows)"
    if "t \<in> set (transactions s)" and "year_of (t_date t) = y" for t
  proof -
    have "k t \<in> set (map fst (group_sum k sel))"
      using that by (simp add: map_fst_group_sum sel_def)
    then show ?thesis
      by (simp add: keys groups_def k_def)
  qed
  show ?thesis
    using res srt dst each cover unfolding keys [symmetric] by blast
qed

text \<open>
  C8 (getMonthlyData groups the year's transactions by month and kind; after one income
  of 100 dated 2024-03-05, getMonthlyData(2024) is exactly the entry for month 3),
  evaluated on a table that holds just that row. The row is of the year 2024, and on
  PostgreSQL the answer is the entry of the claim; on SQLite, the default backend, the
  text \<^verbatim>\<open>'2024'\<close> is compared with the number 2024, no row is selected, and the answer
  is empty.
\<close>

theorem getMonthlyData_sqlite_selects_nothing:
  "transactions march_tables = [march_row] \<and>
   t_date march_row = (2024, 3, 5) \<and>
   strftime_Y (t_date march_row) = Text ''2024'' \<and>
   getMonthlyData postgresql_manager 2024 march_tables =
     Inr [\<lparr>month = 3, type = ''income'', total = 100\<rparr>] \<and>
   getMonthlyData sqlite_manager 2024 march_tables = Inr []"
proof -
  have y: "strftime_Y (t_date march_row) = Text ''2024''"
    by (simp add: strftime_Y_def march_row_def calendar_date_def month_of_def day_of_def
        year_of_def pad_def string_of_nat.simps)
  have p: "getMonthlyData postgresql_manager 2024 march_tables =
     Inr [\<lparr>month = 3, type = ''income'', total = 100\<rparr>]"
    using ready_postgresql_manager postgresql_manager_is_postgresql
    by (simp add: monthly_rows march_tables_def march_row_def year_of_def month_of_def
        group_sum_def)
  have q: "getMonthlyData sqlite_manager 2024 march_tables = Inr []"
    using ready_sqlite_manager sqlite_manager_not_postgresql by (rule getMonthlyData_sqlite)
  show ?thesis
    using y p q by (simp add: march_tables_def march_row_def)
qed

section \<open>Updating a transaction\<close>




lemma rewrite_postgresql_updated_at: "t_updated_at (rewrite True d now t) = now"
  by (simp add: rewrite_def)



section \<open>Deleting a category\<close>

lemma filter_key_distinct:
  "distinct (map f xs) \<Longrightarrow> x \<in> set xs \<Longrightarrow> filter (\<lambda>y. f y = f x) xs = [x]"
proof (induction xs)
  case Nil
  then show ?case by simp
next
  case (Cons a xs)
  show ?case
  proof (cases "a = x")
    case True
    from Cons.prems(1) True have "f x \<notin> f ` set xs" by simp
    then have "\<forall>y\<in>set xs. f y \<noteq> f x" by (metis imageI)
    then have "filter (\<lambda>y. f y = f x) xs = []" by (simp add: filter_empty_conv)
    with True show ?thesis by simp
  next
    case False
    with Cons.prems have "x \<in> set xs" "f a \<noteq> f x" by force+
    with Cons show ?thesis by simp
  qed
qed

lemma usage_count_category:
  "distinct (map c_id (categories s)) \<Longrightarrow> c \<in> set (categories s) \<Longrightarrow>
   usage_count (c_id c) s = length (referencing c s)"
  by (simp add: usage_count_def filter_key_distinct first_row_def referencing_def)

lemma in_use_error:
  "in_use n =
   \<lparr>err_name = ''Error'',
    err_message = ''No se puede eliminar la categor'' @ i_acute @ ''a porque est'' @ a_acute @
                  '' siendo usada en '' @ string_of_nat n @ '' transacci'' @ o_acute @ ''n(es)'',
    err_code = None\<rparr>"
  by (simp add: in_use_def Error_def)

lemma errorHandler_in_use: "status (errorHandler node_env (in_use n)) = 500"
  by (simp add: errorHandler_def in_use_def Error_def)

text \<open>
  C3, as the claim states it (the failure surfaces as 409 over REST), fails: the error is
  a plain \<^verbatim>\<open>Error\<close> without a code, which the error handler answers with 500.
\<close>

theorem delete_category_in_use_counterexample:
  "Category_delete sqlite_manager 1 cine_tables = (Inl (in_use 1), cine_tables) \<and>
   status (fst (delete_category_route ''production'' sqlite_manager 1 cine_tables)) = 500"
  by (simp add: delete_category_route_def Category_delete_def query_rows_ready
      ready_sqlite_manager usage_count_def first_row_def cine_tables_def ocio_row_def
      cine_row_def errorHandler_in_use)

text \<open>
  C3, amended: on a manager whose statements reach the engine, for a category of a table
  with distinct ids: when N > 0 transactions have its name in their category field,
  delete throws a plain Error (its name is "Error" and it has no code) whose message
  names N, the tables are as they were, and the REST route answers 500; when no
  transaction has its name, delete removes the row, and on SQLite it returns true and
  the route answers 200.
\<close>

theorem delete_category_in_use:
  assumes "ready m" and "c \<in> set (categories s)" and "distinct (map c_id (categories s))"
  shows "(referencing c s \<noteq> [] \<longrightarrow>
            Category_delete m (c_id c) s = (Inl (in_use (length (referencing c s))), s) \<and>
            err_name (in_use (length (referencing c s))) = ''Error'' \<and>
            err_code (in_use (length (referencing c s))) = None \<and>
            err_message (in_use (length (referencing c s))) =
              ''No se puede eliminar la categor'' @ i_acute @ ''a porque est'' @ a_acute @
              '' siendo usada en '' @ string_of_nat (length (referencing c s)) @
              '' transacci'' @ o_acute @ ''n(es)'' \<and>
            status (fst (delete_category_route node_env m (c_id c) s)) = 500 \<and>
            snd (delete_category_route node_env m (c_id c) s) = s) \<and>
         (referencing c s = [] \<longrightarrow>
            (\<exists>deleted s'. Category_delete m (c_id c) s = (Inr deleted, s') \<and>
               categories s' = filter (\<lambda>x. c_id x \<noteq> c_id c) (categories s) \<and>
               c \<notin> set (categories s') \<and>
               transactions s' = transactions s \<and>
               (\<not> is_postgresql m \<longrightarrow>
                  deleted \<and> status (fst (delete_category_route node_env m (c_id c) s)) = 200)))"
proof (intro conjI impI)
  assume ne: "referencing c s \<noteq> []"
  have u: "usage_count (c_id c) s = length (referencing c s)"
    using assms by (simp add: usage_count_category)
  show d: "Category_delete m (c_id c) s = (Inl (in_use (length (referencing c s))), s)"
    using assms(1) ne by (simp add: Category_delete_def query_rows_ready u)
  show "err_name (in_use (length (referencing c s))) = ''Error''"
    by (simp add: in_use_error)
  show "err_code (in_use (length (referencing c s))) = None"
    by (simp add: in_use_error)
  show "err_message (in_use (length (referencing c s))) =
          ''No se puede eliminar la categor'' @ i_acute @ ''a porque est'' @ a_acute @
          '' siendo usada en '' @ string_of_nat (length (referencing c s)) @
          '' transacci'' @ o_acute @ ''n(es)''"
    by (simp add: in_use_error)
  show "status (fst (delete_category_route node_env m (c_id c) s)) = 500"
    by (simp add: delete_category_route_def d errorHandler_in_use)
  show "snd (delete_category_route node_env m (c_id c) s) = s"
    by (simp add: delete_category_route_def d)
next
  assume e: "referencing c s = []"
  have u: "usage_count (c_id c) s = 0"
    using assms e by (simp add: usage_count_category)
  define s' where "s' = s\<lparr>categories := filter (\<lambda>x. c_id x \<noteq> c_id c) (categories s)\<rparr>"
  have hit: "filter (\<lambda>x. c_id x = c_id c) (categories s) = [c]"
    using assms(2,3) by (simp add: filter_key_distinct)
  have d: "Category_delete m (c_id c) s = (Inr (\<not> is_postgresql m), s')"
    using assms(1)
    by (simp add: Category_delete_def query_rows_ready query_ready u delete_categories_rows_def
        delete_categories_run_def hit s'_def)
  have r: "\<not> is_postgresql m \<Longrightarrow> status (fst (delete_category_route node_env m (c_id c) s)) = 200"
    by (simp add: delete_category_route_def d)
  show "\<exists>deleted s'. Category_delete m (c_id c) s = (Inr deleted, s') \<and>
          categories s' = filter (\<lambda>x. c_id x \<noteq> c_id c) (categories s) \<and>
          c \<notin> set (categories s') \<and>
          transactions s' = transactions s \<and>
          (\<not> is_postgresql m \<longrightarrow>
             deleted \<and> status (fst (delete_category_route node_env m (c_id c) s)) = 200)"
    using d r by (intro exI [of _ "\<not> is_postgresql m"] exI [of _ s']) (simp add: s'_def)
qed

theorem delete_category_in_use_witness:
  "ready sqlite_manager \<and> ocio_row \<in> set (categories cine_tables) \<and>
   distinct (map c_id (categories cine_tables)) \<and>
   referencing ocio_row cine_tables = [cine_row] \<and>
   Category_delete sqlite_manager 1 cine_tables = (Inl (in_use 1), cine_tables) \<and>
   err_message (in_use 1) =
     ''No se puede eliminar la categor'' @ i_acute @ ''a porque est'' @ a_acute @
     '' siendo usada en 1 transacci'' @ o_acute @ ''n(es)'' \<and>
   status (fst (delete_category_route ''production'' sqlite_manager 1 cine_tables)) = 500 \<and>
   ocio_row \<in> set (categories ocio_tables) \<and>
   distinct (map c_id (categories ocio_tables)) \<and>
   referencing ocio_row ocio_tables = [] \<and>
   (\<exists>s'. Category_delete sqlite_manager 1 ocio_tables = (Inr True, s') \<and> categories s' = []) \<and>
   status (fst (delete_category_route ''production'' sqlite_manager 1 ocio_tables)) = 200"
proof -
  have a: "ocio_row \<in> set (categories cine_tables)" "distinct (map c_id (categories cine_tables))"
    "referencing ocio_row cine_tables = [cine_row]"
    by (simp_all add: cine_tables_def referencing_def ocio_row_def cine_row_def)
  have b: "ocio_row \<in> set (categories ocio_tables)" "distinct (map c_id (categories ocio_tables))"
    "referencing ocio_row ocio_tables = []"
    by (simp_all add: ocio_tables_def referencing_def)
  have i: "c_id ocio_row = 1" by (simp add: ocio_row_def)
  have n: "string_of_nat (Suc 0) = ''1''" by (simp add: string_of_nat.simps)
  show ?thesis
    using delete_category_in_use [OF ready_sqlite_manager a(1,2), of "''production''"]
      delete_category_in_use [OF ready_sqlite_manager b(1,2), of "''production''"]
      ready_sqlite_manager sqlite_manager_not_postgresql a b
    by (auto simp: i n ocio_tables_def)
qed

section \<open>Looking a category up by name\<close>







lemma first_row_Some: "first_row rows = Some r \<Longrightarrow> r \<in> set rows"
  by (cases rows) (auto simp: first_row_def)









end
